theory Spec2Isabelle
  imports Complex_Main "HOL-Library.Log_Nat"
begin

section \<open>JavaScript numbers\<close>

text \<open>
  A JavaScript number is an IEEE 754 binary64 value. The prices of this program come from
  \<^verbatim>\<open>DECIMAL(10, 2)\<close> columns, so every number it computes with is finite and lies in the
  normal range of binary64. A finite number is modelled by the rational it denotes, and every
  operation rounds its exact result to the nearest binary64 value (ties to even), as the
  language does. The exponent is not bounded here: \<open>binary64\<close> agrees with the hardware for
  magnitudes between \<open>2 powi -1022\<close> and \<open>2 powi 1024\<close>, which covers every amount below.
\<close>

type_synonym number = rat

text \<open>The integer \<open>e\<close> with \<open>2 powi e \<le> \<bar>q\<bar>\<close> and \<open>\<bar>q\<bar> < 2 powi (e + 1)\<close>, for \<open>q \<noteq> 0\<close>.\<close>

definition binary_exponent :: "rat \<Rightarrow> int" where
  "binary_exponent q =
     (let (a, b) = quotient_of \<bar>q\<bar>; k = bitlen a - bitlen b
      in if 2 powi k \<le> \<bar>q\<bar> then k else k - 1)"

definition round_ties_even :: "rat \<Rightarrow> int" where
  "round_ties_even r =
     (let f = \<lfloor>r\<rfloor>; d = r - of_int f
      in if d < 1 / 2 then f else if 1 / 2 < d then f + 1
         else if even f then f else f + 1)"

text \<open>The binary64 value nearest to \<open>q\<close>: a 53-bit significand times a power of two.\<close>

definition binary64 :: "rat \<Rightarrow> number" where
  "binary64 q =
     (if q = 0 then 0
      else let e = binary_exponent q - 52
           in sgn q * of_int (round_ties_even (\<bar>q\<bar> / 2 powi e)) * 2 powi e)"

definition js_mul :: "number \<Rightarrow> number \<Rightarrow> number" where
  "js_mul x y = binary64 (x * y)"

definition js_sub :: "number \<Rightarrow> number \<Rightarrow> number" where
  "js_sub x y = binary64 (x - y)"

text \<open>
  Rounding to the nearest integer, a tie going away from zero. It is the choice of
  \<^verbatim>\<open>Number.prototype.toFixed\<close> (``let n be an integer for which n / 10^f - x is as close to
  zero as possible; if there are two such n, pick the larger n'', applied to \<open>- x\<close> when
  \<open>x < 0\<close>) and of PostgreSQL when it rounds a \<^verbatim>\<open>numeric\<close> to the scale of its column.
\<close>

definition round_half_away :: "rat \<Rightarrow> int" where
  "round_half_away r = (if r < 0 then - \<lfloor>- r + 1 / 2\<rfloor> else \<lfloor>r + 1 / 2\<rfloor>)"

text \<open>
  The other readings of ``round'' that the specification names for an amount: a tie going up,
  and a tie going to the even neighbour, which is \<open>round_ties_even\<close> above.
\<close>

definition round_half_up :: "rat \<Rightarrow> int" where
  "round_half_up r = \<lfloor>r + 1 / 2\<rfloor>"

text \<open>
  The text of a number. \<open>Fixed2 n\<close> is the decimal numeral with two fraction digits that
  denotes \<open>n / 100\<close>: what \<^verbatim>\<open>toFixed(2)\<close> produces and what the database driver returns for a
  \<^verbatim>\<open>DECIMAL(10, 2)\<close> column. \<open>Shortest x\<close> is \<^verbatim>\<open>String(x)\<close>, which \<^verbatim>\<open>toFixed\<close>
  falls back to from \<open>10 ^ 21\<close> on and which reads back as \<open>x\<close>.
\<close>

datatype numeral_text = Fixed2 int | Shortest number

definition toFixed2 :: "number \<Rightarrow> numeral_text" where
  "toFixed2 x =
     (if 10 ^ 21 \<le> \<bar>x\<bar> then Shortest x else Fixed2 (round_half_away (100 * x)))"

fun parseFloat :: "numeral_text \<Rightarrow> number" where
  "parseFloat (Fixed2 n) = binary64 (of_int n / 100)"
| "parseFloat (Shortest x) = x"

section \<open>The database\<close>

text \<open>
  The tables of \<^verbatim>\<open>schema.sql\<close>, each a list of rows. A \<^verbatim>\<open>DECIMAL(10, 2)\<close> value is the
  integer number of hundredths it holds; identifiers are the text of a UUID; a timestamp is a
  count of clock ticks.
\<close>

type_synonym uuid = string
type_synonym hundredths = int
type_synonym timestamp = nat

record user_row =
  u_id :: uuid
  u_name :: "string option"
  u_email :: string
  u_password :: string
  u_created_at :: timestamp

record course_row =
  c_id :: uuid
  c_title :: string
  c_description :: string
  c_price :: hundredths
  c_image :: string
  c_main_image :: "string option"
  c_created_at :: timestamp

record subscription_row =
  s_id :: uuid
  s_user_id :: uuid
  s_course_id :: uuid
  s_price_paid :: hundredths
  s_subscribed_at :: timestamp

record database =
  users :: "user_row list"
  courses :: "course_row list"
  subscriptions :: "subscription_row list"

text \<open>A thrown value: a plain \<^verbatim>\<open>Error\<close> with its message (the database driver's errors are
  such errors too), or the \<^verbatim>\<open>ZodError\<close> of a failed schema, with its issues as pairs of
  path and message.\<close>

datatype js_error = Error string | ZodError "(string list \<times> string) list"

text \<open>The range of a \<^verbatim>\<open>DECIMAL(10, 2)\<close> column: fewer than eight digits before the point.\<close>

definition decimal_10_2 :: "hundredths \<Rightarrow> bool" where
  "decimal_10_2 n \<longleftrightarrow> \<bar>n\<bar> < 10 ^ 10"

text \<open>
  A number bound to a \<^verbatim>\<open>DECIMAL(10, 2)\<close> parameter: the driver sends its text, PostgreSQL
  rounds it to two fraction digits and refuses a value out of range. The text of a number is
  the shortest decimal that reads back as that number; the model rounds the number's own
  value, which gives the same hundredths for the values \<open>subscribe\<close> binds (zero, and what
  \<open>parseFloat\<close> reads from a two-digit numeral; see \<open>to_decimal_parseFloat\<close>).
\<close>

definition to_decimal_10_2 :: "number \<Rightarrow> js_error + hundredths" where
  "to_decimal_10_2 x =
     (let n = round_half_away (100 * x)
      in if decimal_10_2 n then Inr n else Inl (Error ''numeric field overflow''))"

definition unique_violation :: string where
  \<open>unique_violation =
     ''duplicate key value violates unique constraint "subscriptions_user_id_course_id_key"''\<close>

definition user_fk_violation :: string where
  \<open>user_fk_violation =
     ''insert or update on table "subscriptions" violates foreign key constraint "subscriptions_user_id_fkey"''\<close>

definition course_fk_violation :: string where
  \<open>course_fk_violation =
     ''insert or update on table "subscriptions" violates foreign key constraint "subscriptions_course_id_fkey"''\<close>

text \<open>\<^verbatim>\<open>SELECT id FROM subscriptions WHERE user_id = $1 AND course_id = $2\<close>\<close>

definition select_subscriptions :: "database \<Rightarrow> uuid \<Rightarrow> uuid \<Rightarrow> subscription_row list" where
  "select_subscriptions db userId courseId =
     filter (\<lambda>s. s_user_id s = userId \<and> s_course_id s = courseId) (subscriptions db)"

text \<open>\<^verbatim>\<open>SELECT ... FROM courses WHERE id = $1\<close>\<close>

definition select_course :: "database \<Rightarrow> uuid \<Rightarrow> course_row list" where
  "select_course db courseId = filter (\<lambda>c. c_id c = courseId) (courses db)"

text \<open>\<^verbatim>\<open>SELECT id, email, name, password FROM users WHERE email = $1\<close>\<close>

definition select_user_by_email :: "database \<Rightarrow> string \<Rightarrow> user_row list" where
  "select_user_by_email db email = filter (\<lambda>u. u_email u = email) (users db)"

text \<open>
  \<^verbatim>\<open>INSERT INTO subscriptions (user_id, course_id, price_paid) VALUES ($1, $2, $3) RETURNING ...\<close>
  under the constraints of the table: the type of \<^verbatim>\<open>price_paid\<close>, \<^verbatim>\<open>UNIQUE(user_id, course_id)\<close>
  and the two foreign keys. The pair \<open>defaults\<close> is what \<^verbatim>\<open>gen_random_uuid()\<close> and
  \<^verbatim>\<open>CURRENT_TIMESTAMP\<close> produce for the new row. A rejected statement changes nothing.
\<close>

definition insert_subscription ::
  "database \<Rightarrow> uuid \<Rightarrow> uuid \<Rightarrow> number \<Rightarrow> uuid \<times> timestamp \<Rightarrow> (js_error + subscription_row) \<times> database"
where
  "insert_subscription db userId courseId pricePaid defaults =
     (case to_decimal_10_2 pricePaid of
        Inl e \<Rightarrow> (Inl e, db)
      | Inr paid \<Rightarrow>
          if select_subscriptions db userId courseId \<noteq> [] then (Inl (Error unique_violation), db)
          else if userId \<notin> u_id ` set (users db) then (Inl (Error user_fk_violation), db)
          else if courseId \<notin> c_id ` set (courses db) then (Inl (Error course_fk_violation), db)
          else
            let row = \<lparr>s_id = fst defaults, s_user_id = userId, s_course_id = courseId,
                       s_price_paid = paid, s_subscribed_at = snd defaults\<rparr>
            in (Inr row, db\<lparr>subscriptions := subscriptions db @ [row]\<rparr>))"

text \<open>The invariant of the table that \<^verbatim>\<open>UNIQUE(user_id, course_id)\<close> states.\<close>

definition unique_subscriptions :: "database \<Rightarrow> bool" where
  "unique_subscriptions db \<longleftrightarrow>
     distinct (map (\<lambda>s. (s_user_id s, s_course_id s)) (subscriptions db))"

section \<open>SubscriptionService\<close>

definition VALID_PROMO_CODE :: string where
  "VALID_PROMO_CODE = ''BFSALE25''"

definition PROMO_DISCOUNT :: number where
  "PROMO_DISCOUNT = 1 / 2"

record promo_validation =
  valid :: bool
  discount :: number

definition validatePromoCode :: "string \<Rightarrow> promo_validation" where
  "validatePromoCode code =
     (if code = VALID_PROMO_CODE then \<lparr>valid = True, discount = PROMO_DISCOUNT\<rparr>
      else \<lparr>valid = False, discount = 0\<rparr>)"

definition calculateDiscountedPrice :: "number \<Rightarrow> number \<Rightarrow> number" where
  "calculateDiscountedPrice originalPrice discount' =
     (let discountedPrice = js_mul originalPrice (js_sub 1 discount')
      in parseFloat (toFixed2 discountedPrice))"

definition isUserSubscribed :: "database \<Rightarrow> uuid \<Rightarrow> uuid \<Rightarrow> bool" where
  "isUserSubscribed db userId courseId \<longleftrightarrow> length (select_subscriptions db userId courseId) > 0"

text \<open>The \<^verbatim>\<open>Subscription\<close> object that \<open>subscribe\<close> returns.\<close>

record subscription =
  sub_id :: uuid
  sub_userId :: uuid
  sub_courseId :: uuid
  sub_pricePaid :: number
  sub_subscribedAt :: timestamp

text \<open>
  \<^verbatim>\<open>subscribe\<close> awaits three statements. While it waits for the answer to the first and to
  the second, the server handles other requests: \<open>others1\<close> and \<open>others2\<close> are what those did
  to the database in the meantime. The result is what the call returns or throws, with the
  database it leaves.
\<close>

definition subscribe_async ::
  "(database \<Rightarrow> database) \<Rightarrow> (database \<Rightarrow> database) \<Rightarrow>
   database \<Rightarrow> uuid \<Rightarrow> uuid \<Rightarrow> string option \<Rightarrow> uuid \<times> timestamp \<Rightarrow>
   (js_error + subscription) \<times> database"
where
  "subscribe_async others1 others2 db userId courseId promoCode defaults =
     (let alreadySubscribed = isUserSubscribed db userId courseId; db1 = others1 db
      in if alreadySubscribed then (Inl (Error ''User already subscribed to this course''), db1)
      else
        case select_course db1 courseId of
          [] \<Rightarrow> (Inl (Error ''Course not found''), others2 db1)
        | course # _ \<Rightarrow>
            let coursePrice = parseFloat (Fixed2 (c_price course));
                db2 = others2 db1;
                priced =
                  (if coursePrice = 0 then Inr 0
                   else
                     case promoCode of
                       None \<Rightarrow> Inl (Error ''Promo code required for paid courses'')
                     | Some code \<Rightarrow>
                         if code = [] then Inl (Error ''Promo code required for paid courses'')
                         else
                           let promoValidation = validatePromoCode code
                           in if \<not> valid promoValidation then Inl (Error ''Invalid promo code'')
                              else Inr (calculateDiscountedPrice coursePrice (discount promoValidation)))
            in case priced of
                 Inl e \<Rightarrow> (Inl e, db2)
               | Inr pricePaid \<Rightarrow>
                   (case insert_subscription db2 userId courseId pricePaid defaults of
                      (Inl e, db3) \<Rightarrow> (Inl e, db3)
                    | (Inr row, db3) \<Rightarrow>
                        (Inr \<lparr>sub_id = s_id row, sub_userId = s_user_id row,
                              sub_courseId = s_course_id row,
                              sub_pricePaid = parseFloat (Fixed2 (s_price_paid row)),
                              sub_subscribedAt = s_subscribed_at row\<rparr>, db3)))"

text \<open>A call that no other request interleaves with.\<close>

definition subscribe ::
  "database \<Rightarrow> uuid \<Rightarrow> uuid \<Rightarrow> string option \<Rightarrow> uuid \<times> timestamp \<Rightarrow>
   (js_error + subscription) \<times> database"
where
  "subscribe = subscribe_async id id"

section \<open>What the program takes from its libraries and its configuration\<close>

text \<open>
  \<^verbatim>\<open>jsonwebtoken\<close>, \<^verbatim>\<open>bcrypt\<close> and the string formats of \<^verbatim>\<open>zod\<close> are not part of the
  repository, and the signing secret is configuration. They are parameters of the model:
  \<open>jwt_verify\<close> returns the decoded payload or throws (on a wrong signature, a malformed token
  or an expired one), \<open>jwt_sign\<close> issues the seven-day token for a user,
  \<open>bcrypt_compare\<close> checks a password against a stored hash, \<open>zod_email\<close> and \<open>zod_uuid\<close>
  are the formats behind \<^verbatim>\<open>z.string().email()\<close> and \<^verbatim>\<open>z.string().uuid()\<close>.
\<close>

record jwt_payload =
  payload_userId :: uuid

record externals =
  JWT_SECRET :: string
  jwt_sign :: "jwt_payload \<Rightarrow> string \<Rightarrow> string"
  jwt_verify :: "string \<Rightarrow> string \<Rightarrow> js_error + jwt_payload"
  bcrypt_compare :: "string \<Rightarrow> string \<Rightarrow> bool"
  zod_email :: "string \<Rightarrow> bool"
  zod_uuid :: "string \<Rightarrow> bool"

section \<open>AuthService\<close>

record user_dto =
  dto_id :: uuid
  dto_email :: string
  dto_name :: "string option"

definition generateToken :: "externals \<Rightarrow> uuid \<Rightarrow> string" where
  "generateToken ext userId = jwt_sign ext \<lparr>payload_userId = userId\<rparr> (JWT_SECRET ext)"

text \<open>The result is what the method returns (\<open>None\<close> for \<^verbatim>\<open>null\<close>) or what it throws.\<close>

definition verifyToken :: "externals \<Rightarrow> string \<Rightarrow> js_error + jwt_payload option" where
  "verifyToken ext token =
     (case jwt_verify ext token (JWT_SECRET ext) of
        Inr decoded \<Rightarrow> Inr (Some decoded)
      | Inl error \<Rightarrow> Inr None)"

definition login ::
  "externals \<Rightarrow> database \<Rightarrow> string \<Rightarrow> string \<Rightarrow> js_error + user_dto \<times> string"
where
  "login ext db email password =
     (case select_user_by_email db email of
        [] \<Rightarrow> Inl (Error ''Invalid credentials'')
      | user # _ \<Rightarrow>
          let isPasswordValid = bcrypt_compare ext password (u_password user)
          in if \<not> isPasswordValid then Inl (Error ''Invalid credentials'')
             else
               let userDTO = \<lparr>dto_id = u_id user, dto_email = u_email user, dto_name = u_name user\<rparr>;
                   token = generateToken ext (u_id user)
               in Inr (userDTO, token))"

section \<open>The HTTP layer\<close>

datatype json =
    JNull
  | JBool bool
  | JNumber number
  | JString string
  | JArray "json list"
  | JObject "(string \<times> json) list"

text \<open>The value of a key of a parsed object; of two entries with one key the later one stands.\<close>

definition field :: "(string \<times> json) list \<Rightarrow> string \<Rightarrow> json option" where
  "field entries key = map_of (rev entries) key"

record request =
  req_authorization :: "string option"
  req_body :: json

datatype response_body =
    ErrorBody string
  | ValidationBody "(string \<times> string) list"
  | LoginBody string user_dto
  | SubscriptionBody subscription

text \<open>
  \<open>ErrorBody m\<close> is \<^verbatim>\<open>{ error: m }\<close>, \<open>ValidationBody ds\<close> is
  \<^verbatim>\<open>{ error: 'Validation failed', details: ds }\<close> with a field and a message per detail,
  \<open>LoginBody t u\<close> is \<^verbatim>\<open>{ token: t, user: u }\<close> and \<open>SubscriptionBody s\<close> is
  \<^verbatim>\<open>{ subscription: s }\<close>.
\<close>

record response =
  res_status :: nat
  res_body :: response_body

subsection \<open>Schemas\<close>

fun received :: "json \<Rightarrow> string" where
  "received JNull = ''null''"
| "received (JBool _) = ''boolean''"
| "received (JNumber _) = ''number''"
| "received (JString _) = ''string''"
| "received (JArray _) = ''array''"
| "received (JObject _) = ''object''"

text \<open>\<^verbatim>\<open>z.string()\<close> on the value at a path: the string, or the issue of a wrong type.\<close>

definition zod_string :: "string list \<Rightarrow> json option \<Rightarrow> (string list \<times> string) list + string" where
  "zod_string path v =
     (case v of
        None \<Rightarrow> Inl [(path, ''Required'')]
      | Some (JString s) \<Rightarrow> Inr s
      | Some other \<Rightarrow> Inl [(path, ''Expected string, received '' @ received other)])"

text \<open>The issues of a field: those of its type, or else those of the check on its string.\<close>

definition issues_of ::
  "(string list \<times> string) list + string \<Rightarrow> (string \<Rightarrow> (string list \<times> string) list) \<Rightarrow>
   (string list \<times> string) list"
where
  "issues_of parsed check = (case parsed of Inl issues \<Rightarrow> issues | Inr s \<Rightarrow> check s)"

definition loginSchema :: "externals \<Rightarrow> json \<Rightarrow> js_error + string \<times> string" where
  "loginSchema ext input =
     (case input of
        JObject entries \<Rightarrow>
          let email = zod_string [''email''] (field entries ''email'');
              password = zod_string [''password''] (field entries ''password'');
              issues =
                issues_of email
                  (\<lambda>s. if zod_email ext s then [] else [([''email''], ''Invalid email format'')]) @
                issues_of password
                  (\<lambda>s. if length s < 8
                        then [([''password''], ''Password must be at least 8 characters long'')]
                        else [])
          in (case (email, password, issues) of
                (Inr e, Inr p, []) \<Rightarrow> Inr (e, p)
              | _ \<Rightarrow> Inl (ZodError issues))
      | other \<Rightarrow> Inl (ZodError [([], ''Expected object, received '' @ received other)]))"

definition subscribeSchema :: "externals \<Rightarrow> json \<Rightarrow> js_error + uuid \<times> string option" where
  "subscribeSchema ext input =
     (case input of
        JObject entries \<Rightarrow>
          let courseId = zod_string [''courseId''] (field entries ''courseId'');
              promoCode =
                (case field entries ''promoCode'' of
                   None \<Rightarrow> Inr None
                 | Some v \<Rightarrow>
                     (case zod_string [''promoCode''] (Some v) of
                        Inl issues \<Rightarrow> Inl issues
                      | Inr s \<Rightarrow> Inr (Some s)));
              issues =
                issues_of courseId
                  (\<lambda>s. if zod_uuid ext s then [] else [([''courseId''], ''Invalid course ID format'')]) @
                (case promoCode of Inl issues \<Rightarrow> issues | Inr _ \<Rightarrow> [])
          in (case (courseId, promoCode, issues) of
                (Inr c, Inr p, []) \<Rightarrow> Inr (c, p)
              | _ \<Rightarrow> Inl (ZodError issues))
      | other \<Rightarrow> Inl (ZodError [([], ''Expected object, received '' @ received other)]))"

subsection \<open>Responses to a thrown error\<close>

text \<open>\<^verbatim>\<open>path.join('.')\<close>\<close>

fun join_dots :: "string list \<Rightarrow> string" where
  "join_dots [] = []"
| "join_dots [p] = p"
| "join_dots (p # ps) = p @ ''.'' @ join_dots ps"

definition validation_failed :: "(string list \<times> string) list \<Rightarrow> response" where
  "validation_failed issues =
     \<lparr>res_status = 400,
      res_body = ValidationBody (map (\<lambda>(path, message). (join_dots path, message)) issues)\<rparr>"

definition internal_server_error :: response where
  "internal_server_error = \<lparr>res_status = 500, res_body = ErrorBody ''Internal server error''\<rparr>"

text \<open>The \<^verbatim>\<open>catch\<close> block of \<^verbatim>\<open>POST /auth/login\<close>.\<close>

fun login_catch :: "js_error \<Rightarrow> response" where
  "login_catch (ZodError issues) = validation_failed issues"
| "login_catch (Error message) =
     (if message = ''Invalid credentials'' then \<lparr>res_status = 401, res_body = ErrorBody message\<rparr>
      else internal_server_error)"

text \<open>The \<^verbatim>\<open>catch\<close> block of \<^verbatim>\<open>POST /subscribe\<close>.\<close>

fun subscribe_catch :: "js_error \<Rightarrow> response" where
  "subscribe_catch (ZodError issues) = validation_failed issues"
| "subscribe_catch (Error message) =
     (if message = ''User already subscribed to this course''
      then \<lparr>res_status = 409, res_body = ErrorBody message\<rparr>
      else if message = ''Course not found''
      then \<lparr>res_status = 404, res_body = ErrorBody message\<rparr>
      else if message = ''Invalid promo code''
      then \<lparr>res_status = 400, res_body = ErrorBody message\<rparr>
      else if message = ''Promo code required for paid courses''
      then \<lparr>res_status = 400, res_body = ErrorBody message\<rparr>
      else internal_server_error)"

subsection \<open>Routes\<close>

definition post_login :: "externals \<Rightarrow> database \<Rightarrow> request \<Rightarrow> response" where
  "post_login ext db req =
     (case loginSchema ext (req_body req) of
        Inl error \<Rightarrow> login_catch error
      | Inr (email, password) \<Rightarrow>
          (case login ext db email password of
             Inl error \<Rightarrow> login_catch error
           | Inr (user, token) \<Rightarrow> \<lparr>res_status = 200, res_body = LoginBody token user\<rparr>))"

text \<open>What a middleware does: it answers the request itself, or it calls \<^verbatim>\<open>next()\<close> after
  attaching the user's identifier to the request.\<close>

datatype middleware_result = Respond response | Next uuid

definition authMiddleware :: "externals \<Rightarrow> request \<Rightarrow> middleware_result" where
  "authMiddleware ext req =
     (case req_authorization req of
        None \<Rightarrow> Respond \<lparr>res_status = 401, res_body = ErrorBody ''Authorization header missing''\<rparr>
      | Some authHeader \<Rightarrow>
          if authHeader = []
          then Respond \<lparr>res_status = 401, res_body = ErrorBody ''Authorization header missing''\<rparr>
          else if take 7 authHeader \<noteq> ''Bearer ''
          then Respond \<lparr>res_status = 401,
                 res_body = ErrorBody ''Invalid authorization format. Expected: Bearer <token>''\<rparr>
          else
            let token = drop 7 authHeader
            in case verifyToken ext token of
                 Inl error \<Rightarrow> Respond \<lparr>res_status = 401, res_body = ErrorBody ''Authentication failed''\<rparr>
               | Inr None \<Rightarrow> Respond \<lparr>res_status = 401, res_body = ErrorBody ''Invalid or expired token''\<rparr>
               | Inr (Some payload) \<Rightarrow> Next (payload_userId payload))"

text \<open>A route registered as \<^verbatim>\<open>router.post(path, authMiddleware, handler)\<close>: the handler runs
  only when the middleware calls \<^verbatim>\<open>next()\<close>. The state \<open>s\<close> is whatever the handler works on.\<close>

definition protected ::
  "externals \<Rightarrow> (uuid \<Rightarrow> request \<Rightarrow> 's \<Rightarrow> response \<times> 's) \<Rightarrow> request \<Rightarrow> 's \<Rightarrow> response \<times> 's"
where
  "protected ext handler req s =
     (case authMiddleware ext req of
        Respond res \<Rightarrow> (res, s)
      | Next userId \<Rightarrow> handler userId req s)"

text \<open>The handler of \<^verbatim>\<open>POST /subscribe\<close>, with the other requests that run while its call
  of \<open>subscribe\<close> waits (see \<open>subscribe_async\<close>).\<close>

definition post_subscribe_async ::
  "(database \<Rightarrow> database) \<Rightarrow> (database \<Rightarrow> database) \<Rightarrow> externals \<Rightarrow> uuid \<times> timestamp \<Rightarrow>
   uuid \<Rightarrow> request \<Rightarrow> database \<Rightarrow> response \<times> database"
where
  "post_subscribe_async others1 others2 ext defaults userId req db =
     (case subscribeSchema ext (req_body req) of
        Inl error \<Rightarrow> (subscribe_catch error, db)
      | Inr (courseId, promoCode) \<Rightarrow>
          (case subscribe_async others1 others2 db userId courseId promoCode defaults of
             (Inl error, db') \<Rightarrow> (subscribe_catch error, db')
           | (Inr subscription, db') \<Rightarrow>
               (\<lparr>res_status = 201, res_body = SubscriptionBody subscription\<rparr>, db')))"

definition post_subscribe ::
  "externals \<Rightarrow> uuid \<times> timestamp \<Rightarrow> request \<Rightarrow> database \<Rightarrow> response \<times> database"
where
  "post_subscribe ext defaults = protected ext (post_subscribe_async id id ext defaults)"

section \<open>Example data\<close>

text \<open>
  A database in the shape of the seed script: one user, a free course, the seeded course at
  99.99, a course at 100.00 and one at 0.01; and one instance of the libraries, in which the
  only token that verifies is the one signed for that user.
\<close>

definition user1 :: uuid where
  "user1 = ''7b0c1d1e-0000-4000-8000-000000000001''"

definition free_course :: uuid where
  "free_course = ''c0000000-0000-4000-8000-000000000001''"

definition react_course :: uuid where
  "react_course = ''c0000000-0000-4000-8000-000000000002''"

definition hundred_course :: uuid where
  "hundred_course = ''c0000000-0000-4000-8000-000000000003''"

definition cent_course :: uuid where
  "cent_course = ''c0000000-0000-4000-8000-000000000004''"

definition example_course :: "uuid \<Rightarrow> string \<Rightarrow> hundredths \<Rightarrow> course_row" where
  "example_course i title price =
     \<lparr>c_id = i, c_title = title, c_description = title, c_price = price,
      c_image = ''/assets/thumb.jpg'', c_main_image = None, c_created_at = 0\<rparr>"

definition example_user :: user_row where
  "example_user =
     \<lparr>u_id = user1, u_name = Some ''Test User 1'', u_email = ''test1@example.com'',
      u_password = ''bcrypt:password123'', u_created_at = 0\<rparr>"

definition example_db :: database where
  "example_db =
     \<lparr>users = [example_user],
      courses = [example_course free_course ''Introduction to Web Development'' 0,
                 example_course react_course ''Advanced React Patterns'' 9999,
                 example_course hundred_course ''One hundred dollars'' 10000,
                 example_course cent_course ''One cent'' 1],
      subscriptions = []\<rparr>"

text \<open>The same database once the user has subscribed to the course at 99.99.\<close>

definition subscribed_db :: database where
  "subscribed_db =
     example_db\<lparr>subscriptions :=
       [\<lparr>s_id = ''s0'', s_user_id = user1, s_course_id = react_course,
         s_price_paid = 4999, s_subscribed_at = 0\<rparr>]\<rparr>"

definition example_ext :: externals where
  "example_ext =
     \<lparr>JWT_SECRET = ''dev-secret-key-change-in-production'',
      jwt_sign = (\<lambda>payload secret. ''signed.'' @ payload_userId payload @ ''.'' @ secret),
      jwt_verify = (\<lambda>token secret.
         if token = ''signed.'' @ user1 @ ''.'' @ secret then Inr \<lparr>payload_userId = user1\<rparr>
         else Inl (Error ''invalid signature'')),
      bcrypt_compare = (\<lambda>password hash. hash = ''bcrypt:'' @ password),
      zod_email = (\<lambda>s. CHR ''@'' \<in> set s),
      zod_uuid = (\<lambda>s. length s = 36)\<rparr>"

definition subscribe_request :: "uuid \<Rightarrow> string option \<Rightarrow> request" where
  "subscribe_request course promo =
     \<lparr>req_authorization =
        Some (''Bearer signed.'' @ user1 @ ''.dev-secret-key-change-in-production''),
      req_body = JObject ((''courseId'', JString course) #
        (case promo of None \<Rightarrow> [] | Some code \<Rightarrow> [(''promoCode'', JString code)]))\<rparr>"

definition login_request :: "string \<Rightarrow> string \<Rightarrow> request" where
  "login_request email password =
     \<lparr>req_authorization = None,
      req_body = JObject [(''email'', JString email), (''password'', JString password)]\<rparr>"

definition stale_request :: request where
  "stale_request = \<lparr>req_authorization = Some ''Bearer expired.token'', req_body = JObject []\<rparr>"

section \<open>Facts about the numbers\<close>

lemma bitlen_powi_bounds:
  assumes "0 < a"
  shows "(2::rat) powi (bitlen a - 1) \<le> of_int a" and "of_int a < (2::rat) powi bitlen a"
proof -
  have la: "1 \<le> bitlen a"
    using assms bitlen_eq_zero_iff [of a] bitlen_nonneg [of a] by linarith
  have "(2::int) ^ nat (bitlen a - 1) \<le> a" and "a < 2 ^ nat (bitlen a)"
    using bitlen_bounds [OF assms] by simp_all
  then have "(of_int ((2::int) ^ nat (bitlen a - 1)) :: rat) \<le> of_int a"
    and "(of_int a :: rat) < of_int ((2::int) ^ nat (bitlen a))"
    by (simp_all only: of_int_le_iff of_int_less_iff)
  then show "(2::rat) powi (bitlen a - 1) \<le> of_int a" and "of_int a < (2::rat) powi bitlen a"
    using la by (simp_all add: power_int_def)
qed

lemma binary_exponent_bounds:
  assumes "q \<noteq> 0"
  shows "2 powi binary_exponent q \<le> \<bar>q\<bar>" and "\<bar>q\<bar> < 2 powi (binary_exponent q + 1)"
proof -
  obtain a b where ab: "quotient_of \<bar>q\<bar> = (a, b)"
    by (cases "quotient_of \<bar>q\<bar>")
  have b: "0 < b" using ab by (rule quotient_of_denom_pos)
  have q: "\<bar>q\<bar> = of_int a / of_int b" using ab by (rule quotient_of_div)
  have a: "0 < a"
  proof (rule ccontr)
    assume "\<not> 0 < a"
    then have "of_int a / (of_int b :: rat) \<le> 0"
      using b by (simp add: divide_le_0_iff)
    with q assms show False by simp
  qed
  define k where "k = bitlen a - bitlen b"
  note A = bitlen_powi_bounds [OF a] and B = bitlen_powi_bounds [OF b]
  have "(2::rat) powi (bitlen a - 1) / 2 powi bitlen b \<le> of_int a / of_int b"
    using A(1) B(2) a b by (intro frac_le) simp_all
  moreover have "(2::rat) powi (k - 1) = 2 powi (bitlen a - 1) / 2 powi bitlen b"
    by (simp add: k_def power_int_diff)
  ultimately have lower: "2 powi (k - 1) \<le> \<bar>q\<bar>"
    using q by simp
  have "of_int a / of_int b < (2::rat) powi bitlen a / 2 powi (bitlen b - 1)"
    using A(2) B(1) a by (intro frac_less) simp_all
  moreover have "(2::rat) powi (k + 1) = 2 powi bitlen a / 2 powi (bitlen b - 1)"
    by (simp add: k_def power_int_diff power_int_add)
  ultimately have upper: "\<bar>q\<bar> < 2 powi (k + 1)"
    using q by simp
  have e: "binary_exponent q = (if 2 powi k \<le> \<bar>q\<bar> then k else k - 1)"
    by (simp add: binary_exponent_def ab k_def)
  show "2 powi binary_exponent q \<le> \<bar>q\<bar>"
    using lower by (simp add: e)
  show "\<bar>q\<bar> < 2 powi (binary_exponent q + 1)"
    using upper by (simp add: e)
qed

lemma round_ties_even_near: "\<bar>of_int (round_ties_even r) - r\<bar> \<le> 1 / 2"
proof -
  have "of_int \<lfloor>r\<rfloor> \<le> r" and "r < of_int \<lfloor>r\<rfloor> + 1"
    by linarith+
  then show ?thesis
    unfolding round_ties_even_def Let_def by (simp add: abs_le_iff)
qed

text \<open>Rounding to binary64 moves a value by at most half a unit in the last place.\<close>

lemma binary64_error: "\<bar>binary64 q - q\<bar> \<le> \<bar>q\<bar> / 2 ^ 53"
proof (cases "q = 0")
  case True
  then show ?thesis by (simp add: binary64_def)
next
  case False
  define e where "e = binary_exponent q - 52"
  define r where "r = \<bar>q\<bar> / 2 powi e"
  define m where "m = round_ties_even r"
  have p: "(0::rat) < 2 powi e" by simp
  have fl: "binary64 q = sgn q * (of_int m * 2 powi e)"
    using False by (simp add: binary64_def e_def r_def m_def Let_def)
  have q: "q = sgn q * (r * 2 powi e)"
    by (simp add: r_def sgn_mult_abs)
  have "binary64 q - q = sgn q * ((of_int m - r) * 2 powi e)"
    by (subst fl, subst (2) q) (simp add: algebra_simps)
  then have "\<bar>binary64 q - q\<bar> = \<bar>of_int m - r\<bar> * 2 powi e"
    using False by (simp add: abs_mult abs_sgn_eq)
  also have "\<dots> \<le> 1 / 2 * 2 powi e"
    using round_ties_even_near [of r] p unfolding m_def by (intro mult_right_mono) simp_all
  also have "(2::rat) powi e = 2 powi binary_exponent q / 2 ^ 52"
    by (simp add: e_def power_int_diff)
  also have "1 / 2 * (2 powi binary_exponent q / 2 ^ 52) \<le> 1 / 2 * (\<bar>q\<bar> / 2 ^ 52)"
    using binary_exponent_bounds(1) [OF False] by (simp add: divide_right_mono)
  finally show ?thesis by simp
qed

lemma binary64_nonneg: "0 \<le> q \<Longrightarrow> 0 \<le> binary64 q"
proof -
  assume "0 \<le> q"
  moreover have "\<bar>binary64 q - q\<bar> \<le> \<bar>q\<bar> / 2 ^ 53" by (rule binary64_error)
  moreover have "\<bar>q\<bar> / 2 ^ 53 \<le> \<bar>q\<bar>" by (simp add: divide_le_eq)
  ultimately show ?thesis by linarith
qed

lemma binary64_eq_0_iff: "binary64 q = 0 \<longleftrightarrow> q = 0"
proof
  assume z: "binary64 q = 0"
  have "\<bar>binary64 q - q\<bar> \<le> \<bar>q\<bar> / 2 ^ 53" by (rule binary64_error)
  with z have "\<bar>q\<bar> \<le> \<bar>q\<bar> / 2 ^ 53" by simp
  then show "q = 0" by (simp add: le_divide_eq)
qed (simp add: binary64_def)

lemma parseFloat_eq_0_iff: "parseFloat (Fixed2 n) = 0 \<longleftrightarrow> n = 0"
  by (simp add: binary64_eq_0_iff)

lemma js_sub_discount: "js_sub 1 PROMO_DISCOUNT = 1 / 2"
  by code_simp

lemma round_half_away_unique: "\<bar>r - of_int n\<bar> < 1 / 2 \<Longrightarrow> round_half_away r = n"
proof -
  assume h: "\<bar>r - of_int n\<bar> < 1 / 2"
  have "\<lfloor>r + 1 / 2\<rfloor> = n"
    using h by (intro floor_unique) linarith+
  moreover have "\<lfloor>- r + 1 / 2\<rfloor> = - n"
  proof (rule floor_unique)
    have m: "of_int (- n) = - (of_int n :: rat)" by simp
    show "of_int (- n) \<le> - r + 1 / 2" unfolding m using h by linarith
    show "- r + 1 / 2 < of_int (- n) + 1" unfolding m using h by linarith
  qed
  ultimately show ?thesis
    by (simp add: round_half_away_def)
qed

lemma decimal_10_2_rat: "decimal_10_2 n \<Longrightarrow> \<bar>of_int n / 100 :: rat\<bar> < 10 ^ 8"
proof -
  assume "decimal_10_2 n"
  then have "\<bar>of_int n :: rat\<bar> < of_int (10 ^ 10)"
    unfolding decimal_10_2_def of_int_abs [symmetric] of_int_less_iff .
  then show ?thesis by simp
qed

text \<open>A two-digit amount that went through \<open>parseFloat\<close> is stored as that amount.\<close>

lemma to_decimal_parseFloat:
  assumes "decimal_10_2 n"
  shows "to_decimal_10_2 (parseFloat (Fixed2 n)) = Inr n"
proof -
  define q :: rat where "q = of_int n / 100"
  have "\<bar>binary64 q - q\<bar> \<le> \<bar>q\<bar> / 2 ^ 53" by (rule binary64_error)
  moreover have "\<bar>q\<bar> < 10 ^ 8"
    unfolding q_def using assms by (rule decimal_10_2_rat)
  moreover have "\<bar>100 * binary64 q - of_int n\<bar> = 100 * \<bar>binary64 q - q\<bar>"
  proof -
    have "100 * binary64 q - of_int n = 100 * (binary64 q - q)"
      by (simp add: q_def)
    then show ?thesis by (simp only: abs_mult)
  qed
  ultimately have "\<bar>100 * binary64 q - of_int n\<bar> < 1 / 2"
    by (simp add: field_simps)
  then have "round_half_away (100 * binary64 q) = n"
    by (rule round_half_away_unique)
  then show ?thesis
    using assms by (simp add: to_decimal_10_2_def q_def)
qed

lemma to_decimal_zero: "to_decimal_10_2 0 = Inr 0"
  by code_simp

text \<open>
  Half of a positive price of the column, as the program computes it: the product stays far
  below the bound of \<open>toFixed2\<close>, and the hundredths it is rounded to are within half a
  hundredth of half the decimal price.
\<close>

lemma discounted_hundredths:
  assumes c: "0 < c" "decimal_10_2 c"
  defines "y \<equiv> js_mul (parseFloat (Fixed2 c)) (js_sub 1 PROMO_DISCOUNT)"
  shows "\<bar>y\<bar> < 10 ^ 21" and "\<bar>2 * round_half_away (100 * y) - c\<bar> \<le> 1"
proof -
  define q :: rat where "q = of_int c / 100"
  define x where "x = binary64 q"
  have y: "y = binary64 (x / 2)"
    by (simp add: y_def js_mul_def js_sub_discount x_def q_def)
  have q0: "0 < q" using c(1) by (simp add: q_def)
  have q8: "q < 10 ^ 8" using decimal_10_2_rat [OF c(2)] q0 by (simp add: q_def)
  have x0: "0 \<le> x" unfolding x_def using q0 by (intro binary64_nonneg) simp
  have y0: "0 \<le> y" unfolding y using x0 by (intro binary64_nonneg) simp
  have "\<bar>x - q\<bar> \<le> q / 2 ^ 53"
    using binary64_error [of q] q0 by (simp add: x_def)
  then have ex: "x - q \<le> q / 2 ^ 53" "- (q / 2 ^ 53) \<le> x - q"
    by (simp_all only: abs_le_iff) linarith
  have "\<bar>y - x / 2\<bar> \<le> (x / 2) / 2 ^ 53"
    using binary64_error [of "x / 2"] x0 by (simp add: y)
  then have ey: "y - x / 2 \<le> (x / 2) / 2 ^ 53" "- ((x / 2) / 2 ^ 53) \<le> y - x / 2"
    by (simp_all only: abs_le_iff) linarith
  have hi: "100 * y - 50 * q < 1 / 4" and lo: "- (1 / 4) < 100 * y - 50 * q"
    using ex ey q8 x0 q0 by simp_all
  have "y < 10 ^ 21"
    using hi q8 by simp
  then show "\<bar>y\<bar> < 10 ^ 21"
    using y0 by simp
  define n where "n = round_half_away (100 * y)"
  have n: "n = \<lfloor>100 * y + 1 / 2\<rfloor>"
    using y0 by (simp add: n_def round_half_away_def)
  have "of_int n \<le> 100 * y + 1 / 2" and "100 * y + 1 / 2 < of_int n + 1"
    unfolding n by linarith+
  moreover have "(of_int c :: rat) = 100 * q" by (simp add: q_def)
  ultimately have "(of_int (2 * n - c) :: rat) < 2" and "- 2 < (of_int (2 * n - c) :: rat)"
    using hi lo by simp_all
  then have "2 * n - c < 2" and "- 2 < 2 * n - c"
    by (simp_all only: of_int_less_iff [symmetric, where ?'a = rat] of_int_numeral of_int_minus)
  then show "\<bar>2 * round_half_away (100 * y) - c\<bar> \<le> 1"
    unfolding n_def by linarith
qed

text \<open>
  What \<open>toFixed2\<close> does with a tie: a number that lies exactly half a hundredth above a
  multiple of a hundredth goes away from zero.
\<close>

lemma toFixed2_exact_tie:
  assumes "\<bar>x\<bar> < 10 ^ 21" and "100 * \<bar>x\<bar> = of_int k + 1 / 2"
  shows "toFixed2 x = Fixed2 (if x < 0 then - (k + 1) else k + 1)"
proof (cases "x < 0")
  case True
  then have "- (100 * x) + 1 / 2 = of_int (k + 1)"
    using assms(2) by simp
  then have "\<lfloor>- (100 * x) + 1 / 2\<rfloor> = k + 1"
    by (simp only: floor_of_int)
  then show ?thesis
    using True assms(1) by (simp add: toFixed2_def round_half_away_def)
next
  case False
  then have "100 * x + 1 / 2 = of_int (k + 1)"
    using assms(2) by simp
  then have "\<lfloor>100 * x + 1 / 2\<rfloor> = k + 1"
    by (simp only: floor_of_int)
  then show ?thesis
    using False assms(1) by (simp add: toFixed2_def round_half_away_def)
qed

section \<open>Facts about the statements and the service\<close>

lemma select_course_member:
  "select_course db courseId = course # rest \<Longrightarrow> courseId \<in> c_id ` set (courses db)"
proof -
  assume "select_course db courseId = course # rest"
  then have "course \<in> set (filter (\<lambda>c. c_id c = courseId) (courses db))"
    by (simp add: select_course_def)
  then show ?thesis by auto
qed

lemma insert_subscription_ok:
  assumes "select_subscriptions db userId courseId = []"
    and "userId \<in> u_id ` set (users db)"
    and "courseId \<in> c_id ` set (courses db)"
    and "to_decimal_10_2 x = Inr paid"
  shows "insert_subscription db userId courseId x defaults =
     (Inr \<lparr>s_id = fst defaults, s_user_id = userId, s_course_id = courseId,
            s_price_paid = paid, s_subscribed_at = snd defaults\<rparr>,
      db\<lparr>subscriptions := subscriptions db @
         [\<lparr>s_id = fst defaults, s_user_id = userId, s_course_id = courseId,
           s_price_paid = paid, s_subscribed_at = snd defaults\<rparr>]\<rparr>)"
  using assms by (simp add: insert_subscription_def Let_def)

lemma insert_subscription_cases:
  assumes "insert_subscription db userId courseId x defaults = (Inr row, db')"
  obtains paid where "to_decimal_10_2 x = Inr paid"
    and "select_subscriptions db userId courseId = []"
    and "row = \<lparr>s_id = fst defaults, s_user_id = userId, s_course_id = courseId,
            s_price_paid = paid, s_subscribed_at = snd defaults\<rparr>"
    and "db' = db\<lparr>subscriptions := subscriptions db @ [row]\<rparr>"
  using assms
  by (auto simp: insert_subscription_def Let_def split: sum.splits if_splits)

text \<open>The statement keeps the invariant of the table, whether it inserts or is rejected.\<close>

lemma insert_subscription_unique:
  assumes "unique_subscriptions db"
    and "insert_subscription db userId courseId x defaults = (r, db')"
  shows "unique_subscriptions db'"
proof (cases r)
  case (Inl e)
  then have "db' = db"
    using assms(2) by (auto simp: insert_subscription_def Let_def split: sum.splits if_splits)
  then show ?thesis using assms(1) by simp
next
  case (Inr row)
  with assms(2) obtain paid where none: "select_subscriptions db userId courseId = []"
    and row: "row = \<lparr>s_id = fst defaults, s_user_id = userId, s_course_id = courseId,
            s_price_paid = paid, s_subscribed_at = snd defaults\<rparr>"
    and db': "db' = db\<lparr>subscriptions := subscriptions db @ [row]\<rparr>"
    by (auto elim: insert_subscription_cases)
  have "(userId, courseId) \<notin> set (map (\<lambda>s. (s_user_id s, s_course_id s)) (subscriptions db))"
    using none by (auto simp: select_subscriptions_def filter_empty_conv)
  then show ?thesis
    using assms(1) by (simp add: unique_subscriptions_def db' row)
qed

lemma subscribe_already:
  "isUserSubscribed db userId courseId \<Longrightarrow>
   subscribe db userId courseId promoCode defaults =
     (Inl (Error ''User already subscribed to this course''), db)"
  by (simp add: subscribe_def subscribe_async_def Let_def)

text \<open>What a successful call went through.\<close>

lemma subscribe_success_cases:
  assumes "subscribe db userId courseId promoCode defaults = (Inr sub, db')"
  obtains course rest x row where "\<not> isUserSubscribed db userId courseId"
    and "select_course db courseId = course # rest"
    and "insert_subscription db userId courseId x defaults = (Inr row, db')"
    and "sub = \<lparr>sub_id = s_id row, sub_userId = s_user_id row, sub_courseId = s_course_id row,
                sub_pricePaid = parseFloat (Fixed2 (s_price_paid row)),
                sub_subscribedAt = s_subscribed_at row\<rparr>"
    and "if parseFloat (Fixed2 (c_price course)) = 0 then x = 0
         else promoCode = Some ''BFSALE25'' \<and>
              x = calculateDiscountedPrice (parseFloat (Fixed2 (c_price course))) PROMO_DISCOUNT"
  using assms
  by (auto simp: subscribe_def subscribe_async_def Let_def validatePromoCode_def VALID_PROMO_CODE_def
      simp del: parseFloat.simps
      split: list.splits sum.splits if_splits option.splits prod.splits)

text \<open>The check of \<open>subscribe\<close> for an existing subscription, read on the table itself.\<close>

lemma isUserSubscribed_iff:
  "isUserSubscribed db userId courseId \<longleftrightarrow>
     (\<exists>s \<in> set (subscriptions db). s_user_id s = userId \<and> s_course_id s = courseId)"
  by (auto simp: isUserSubscribed_def select_subscriptions_def filter_empty_conv)

text \<open>Without a row for the pair, whatever \<open>subscribe\<close> throws is not the conflict.\<close>

lemma subscribe_no_conflict:
  assumes "\<not> isUserSubscribed db userId courseId"
  shows "fst (subscribe db userId courseId promoCode defaults) \<noteq>
     Inl (Error ''User already subscribed to this course'')"
  using assms
  by (auto simp: subscribe_def subscribe_async_def Let_def insert_subscription_def
      to_decimal_10_2_def unique_violation_def user_fk_violation_def course_fk_violation_def
      simp del: parseFloat.simps
      split: list.splits sum.splits option.splits if_splits prod.splits)

text \<open>
  Calls that overlap keep the invariant: whatever the other requests do between the
  statements of a call, its \<^verbatim>\<open>INSERT\<close> is checked against the table as it is then.
\<close>

lemma subscribe_async_unique:
  assumes "unique_subscriptions db"
    and "\<And>x. unique_subscriptions x \<Longrightarrow> unique_subscriptions (others1 x)"
    and "\<And>x. unique_subscriptions x \<Longrightarrow> unique_subscriptions (others2 x)"
  shows "unique_subscriptions
     (snd (subscribe_async others1 others2 db userId courseId promoCode defaults))"
proof -
  have u1: "unique_subscriptions (others1 db)"
    using assms(1,2) by simp
  then have u2: "unique_subscriptions (others2 (others1 db))"
    using assms(3) by simp
  note ins = insert_subscription_unique [OF u2]
  show ?thesis
    using u1 u2
    by (auto simp: subscribe_async_def Let_def simp del: parseFloat.simps
        split: list.splits sum.splits option.splits prod.splits dest: ins)
qed

text \<open>
  With the promo code, a user of the \<^verbatim>\<open>users\<close> table who is not subscribed yet always
  subscribes to a course with a price above zero; what \<open>calculateDiscountedPrice\<close> returns is
  an amount of whole hundredths, at most half a hundredth from half the price.
\<close>

lemma paid_course_succeeds:
  assumes "\<not> isUserSubscribed db userId courseId"
    and "select_course db courseId = course # rest"
    and "0 < c_price course" and "decimal_10_2 (c_price course)"
    and "userId \<in> u_id ` set (users db)"
  shows "\<exists>paid. subscribe db userId courseId (Some ''BFSALE25'') defaults =
     (Inr \<lparr>sub_id = fst defaults, sub_userId = userId, sub_courseId = courseId,
            sub_pricePaid = parseFloat (Fixed2 paid), sub_subscribedAt = snd defaults\<rparr>,
      db\<lparr>subscriptions := subscriptions db @
         [\<lparr>s_id = fst defaults, s_user_id = userId, s_course_id = courseId,
           s_price_paid = paid, s_subscribed_at = snd defaults\<rparr>]\<rparr>)
     \<and> calculateDiscountedPrice (parseFloat (Fixed2 (c_price course))) PROMO_DISCOUNT
         = parseFloat (Fixed2 paid)
     \<and> \<bar>2 * paid - c_price course\<bar> \<le> 1"
proof -
  define y where "y = js_mul (parseFloat (Fixed2 (c_price course))) (1 / 2)"
  define paid where "paid = round_half_away (100 * y)"
  have small: "\<bar>y\<bar> < 10 ^ 21" and near: "\<bar>2 * paid - c_price course\<bar> \<le> 1"
    using discounted_hundredths [OF assms(3,4)] unfolding js_sub_discount y_def paid_def
    by simp_all
  have calc: "calculateDiscountedPrice (parseFloat (Fixed2 (c_price course))) PROMO_DISCOUNT
      = parseFloat (Fixed2 paid)"
    using small unfolding calculateDiscountedPrice_def Let_def js_sub_discount toFixed2_def
      y_def [symmetric] paid_def
    by (simp del: parseFloat.simps)
  have range: "decimal_10_2 paid"
    using near assms(3,4) by (simp add: decimal_10_2_def)
  have none: "select_subscriptions db userId courseId = []"
    using assms(1) by (simp add: isUserSubscribed_def)
  have ins: "insert_subscription db userId courseId (parseFloat (Fixed2 paid)) defaults =
     (Inr \<lparr>s_id = fst defaults, s_user_id = userId, s_course_id = courseId,
            s_price_paid = paid, s_subscribed_at = snd defaults\<rparr>,
      db\<lparr>subscriptions := subscriptions db @
         [\<lparr>s_id = fst defaults, s_user_id = userId, s_course_id = courseId,
           s_price_paid = paid, s_subscribed_at = snd defaults\<rparr>]\<rparr>)"
    using none assms(5) select_course_member [OF assms(2)] to_decimal_parseFloat [OF range]
    by (rule insert_subscription_ok)
  have nz: "parseFloat (Fixed2 (c_price course)) \<noteq> 0"
    using assms(3) by (simp only: parseFloat_eq_0_iff)
  have "subscribe db userId courseId (Some ''BFSALE25'') defaults =
     (Inr \<lparr>sub_id = fst defaults, sub_userId = userId, sub_courseId = courseId,
            sub_pricePaid = parseFloat (Fixed2 paid), sub_subscribedAt = snd defaults\<rparr>,
      db\<lparr>subscriptions := subscriptions db @
         [\<lparr>s_id = fst defaults, s_user_id = userId, s_course_id = courseId,
           s_price_paid = paid, s_subscribed_at = snd defaults\<rparr>]\<rparr>)"
    using assms(1,2) nz
    by (simp add: subscribe_def subscribe_async_def Let_def validatePromoCode_def
        VALID_PROMO_CODE_def calc ins del: parseFloat.simps)
  with calc near show ?thesis by blast
qed

section \<open>Pricing\<close>

text \<open>
  C1 fails on the code, by the defect of C8. The seeded course at 99.99 with
  \<^verbatim>\<open>BFSALE25\<close>: \<open>subscribe\<close> succeeds, and half the price is 49.995, which rounded to two
  decimal places is 50.00, whether a tie goes up, to the even neighbour or away from zero.
  The price that is returned and persisted is 49.99.
\<close>

theorem paid_course_charged_below_half:
  "map c_price (select_course example_db react_course) = [9999]
   \<and> subscribe example_db user1 react_course (Some ''BFSALE25'') (''s1'', 1) =
     (Inr \<lparr>sub_id = ''s1'', sub_userId = user1, sub_courseId = react_course,
            sub_pricePaid = parseFloat (Fixed2 4999), sub_subscribedAt = 1\<rparr>,
      example_db\<lparr>subscriptions :=
         [\<lparr>s_id = ''s1'', s_user_id = user1, s_course_id = react_course,
           s_price_paid = 4999, s_subscribed_at = 1\<rparr>]\<rparr>)
   \<and> round_half_up (100 * (9999 / 100 * (1 / 2))) = 5000
   \<and> round_ties_even (100 * (9999 / 100 * (1 / 2))) = 5000
   \<and> round_half_away (100 * (9999 / 100 * (1 / 2))) = 5000"
  by code_simp

text \<open>
  C2. For a course whose price is zero, \<open>subscribe\<close> succeeds (for a user of the
  \<^verbatim>\<open>users\<close> table who is not subscribed to the course yet) and the price paid is zero. The
  promo code does not occur in the result: whether one is supplied, and which, makes no
  difference, and no code is rejected.
\<close>

theorem free_course_subscribe:
  assumes "\<not> isUserSubscribed db userId courseId"
    and "select_course db courseId = course # rest"
    and "c_price course = 0"
    and "userId \<in> u_id ` set (users db)"
  shows "subscribe db userId courseId promoCode defaults =
     (Inr \<lparr>sub_id = fst defaults, sub_userId = userId, sub_courseId = courseId,
            sub_pricePaid = 0, sub_subscribedAt = snd defaults\<rparr>,
      db\<lparr>subscriptions := subscriptions db @
         [\<lparr>s_id = fst defaults, s_user_id = userId, s_course_id = courseId,
           s_price_paid = 0, s_subscribed_at = snd defaults\<rparr>]\<rparr>)"
proof -
  have none: "select_subscriptions db userId courseId = []"
    using assms(1) by (simp add: isUserSubscribed_def)
  have ins: "insert_subscription db userId courseId 0 defaults =
     (Inr \<lparr>s_id = fst defaults, s_user_id = userId, s_course_id = courseId,
            s_price_paid = 0, s_subscribed_at = snd defaults\<rparr>,
      db\<lparr>subscriptions := subscriptions db @
         [\<lparr>s_id = fst defaults, s_user_id = userId, s_course_id = courseId,
           s_price_paid = 0, s_subscribed_at = snd defaults\<rparr>]\<rparr>)"
    using none assms(4) select_course_member [OF assms(2)] to_decimal_zero
    by (rule insert_subscription_ok)
  show ?thesis
    using assms(1,2,3) ins
    by (simp add: subscribe_def subscribe_async_def Let_def binary64_def)
qed

text \<open>The free course, with a promo code that would be invalid on a paid one.\<close>

theorem free_course_subscribe_witness:
  "subscribe example_db user1 free_course (Some ''NOT-A-CODE'') (''s1'', 1) =
     (Inr \<lparr>sub_id = ''s1'', sub_userId = user1, sub_courseId = free_course,
            sub_pricePaid = 0, sub_subscribedAt = 1\<rparr>,
      example_db\<lparr>subscriptions := subscriptions example_db @
         [\<lparr>s_id = ''s1'', s_user_id = user1, s_course_id = free_course,
           s_price_paid = 0, s_subscribed_at = 1\<rparr>]\<rparr>)"
proof -
  have h1: "\<not> isUserSubscribed example_db user1 free_course"
    by code_simp
  have h2: "select_course example_db free_course =
      example_course free_course ''Introduction to Web Development'' 0 # []"
    by code_simp
  have h3: "c_price (example_course free_course ''Introduction to Web Development'' 0) = 0"
    by (simp add: example_course_def)
  have h4: "user1 \<in> u_id ` set (users example_db)"
    by (simp add: example_db_def example_user_def)
  show ?thesis
    using free_course_subscribe [OF h1 h2 h3 h4, of "Some ''NOT-A-CODE''" "(''s1'', 1)"]
    by simp
qed

text \<open>
  C3, as the claim states it, fails: for a paid course every supplied promo code other than
  \<^verbatim>\<open>BFSALE25\<close> would be answered ``invalid promo code''. The empty string is such a code,
  and \<^verbatim>\<open>!promoCode\<close> takes it for a missing one.
\<close>

theorem empty_promo_code_counterexample:
  "subscribe example_db user1 react_course (Some '''') (''s1'', 1) =
     (Inl (Error ''Promo code required for paid courses''), example_db)
   \<and> fst (subscribe example_db user1 react_course (Some '''') (''s1'', 1)) \<noteq>
       Inl (Error ''Invalid promo code'')"
  by code_simp

text \<open>
  C3, amended. For a course with a price above zero and a user who is not subscribed to it,
  \<open>subscribe\<close> fails with the message \<^verbatim>\<open>Promo code required for paid courses\<close> when no
  promo code or the empty string is supplied, and with \<^verbatim>\<open>Invalid promo code\<close> when any
  other string than \<^verbatim>\<open>BFSALE25\<close> is supplied, whatever its case and the spaces around it.
  The route answers both with status 400, and the database is left as it was.
\<close>

theorem paid_course_promo_rejected:
  assumes "\<not> isUserSubscribed db userId courseId"
    and "select_course db courseId = course # rest"
    and "0 < c_price course"
    and "promoCode \<noteq> Some ''BFSALE25''"
  shows "subscribe db userId courseId promoCode defaults =
     (Inl (Error (if promoCode = None \<or> promoCode = Some []
                  then ''Promo code required for paid courses'' else ''Invalid promo code'')), db)
     \<and> res_status (subscribe_catch (Error ''Promo code required for paid courses'')) = 400
     \<and> res_status (subscribe_catch (Error ''Invalid promo code'')) = 400"
proof -
  have nz: "parseFloat (Fixed2 (c_price course)) \<noteq> 0"
    using assms(3) by (simp only: parseFloat_eq_0_iff)
  have "subscribe db userId courseId promoCode defaults =
     (Inl (Error (if promoCode = None \<or> promoCode = Some []
                  then ''Promo code required for paid courses'' else ''Invalid promo code'')), db)"
    using assms(1,2,4) nz
    by (cases promoCode)
       (simp_all add: subscribe_def subscribe_async_def Let_def validatePromoCode_def
          VALID_PROMO_CODE_def del: parseFloat.simps)
  then show ?thesis by simp
qed

text \<open>The course at 99.99 with the code in lower case.\<close>

theorem paid_course_promo_rejected_witness:
  "subscribe example_db user1 react_course (Some ''bfsale25'') (''s1'', 1) =
     (Inl (Error ''Invalid promo code''), example_db)"
proof -
  have h1: "\<not> isUserSubscribed example_db user1 react_course"
    by code_simp
  have h2: "select_course example_db react_course =
      example_course react_course ''Advanced React Patterns'' 9999 # []"
    by code_simp
  have h3: "0 < c_price (example_course react_course ''Advanced React Patterns'' 9999)"
    by (simp add: example_course_def)
  have h4: "Some ''bfsale25'' \<noteq> Some ''BFSALE25''"
    by simp
  show ?thesis
    using paid_course_promo_rejected [OF h1 h2 h3 h4, of "(''s1'', 1)"]
    by simp
qed

section \<open>One subscription for a user and a course\<close>

text \<open>
  C4. The table holds at most one subscription for a user and a course. A successful
  \<open>subscribe\<close> keeps that invariant, leaves exactly one row of the table for its pair and
  leaves the rows of other pairs as they were. A second call for the pair, with any promo
  code, fails with the message \<^verbatim>\<open>User already subscribed to this course\<close>, which the route
  answers with status 409, and persists nothing. The check comes first and looks at that pair
  only: whenever the table has a row for the pair, that error is the result, whatever the
  courses table and the promo code are, and when it has none, rows of other pairs never
  bring that error about. Calls that overlap keep the invariant too, by
  \<^verbatim>\<open>UNIQUE(user_id, course_id)\<close>: this holds for every call, whatever the requests handled
  between its statements do, as long as they keep the invariant themselves.
\<close>

theorem subscribe_at_most_once:
  assumes "unique_subscriptions db"
    and "subscribe db userId courseId promoCode defaults = (Inr sub, db')"
  shows "unique_subscriptions db'
     \<and> length (filter (\<lambda>s. s_user_id s = userId \<and> s_course_id s = courseId)
         (subscriptions db')) = 1
     \<and> filter (\<lambda>s. \<not> (s_user_id s = userId \<and> s_course_id s = courseId)) (subscriptions db') =
       filter (\<lambda>s. \<not> (s_user_id s = userId \<and> s_course_id s = courseId)) (subscriptions db)
     \<and> (\<forall>promoCode' defaults'. subscribe db' userId courseId promoCode' defaults' =
           (Inl (Error ''User already subscribed to this course''), db'))
     \<and> (\<forall>d p ds.
           (\<exists>s \<in> set (subscriptions d). s_user_id s = userId \<and> s_course_id s = courseId) \<longrightarrow>
           subscribe d userId courseId p ds =
             (Inl (Error ''User already subscribed to this course''), d))
     \<and> (\<forall>d p ds.
           (\<forall>s \<in> set (subscriptions d). \<not> (s_user_id s = userId \<and> s_course_id s = courseId)) \<longrightarrow>
           fst (subscribe d userId courseId p ds) \<noteq>
             Inl (Error ''User already subscribed to this course''))
     \<and> (\<forall>others1 others2 d p ds.
           unique_subscriptions d
           \<and> (\<forall>x. unique_subscriptions x \<longrightarrow> unique_subscriptions (others1 x))
           \<and> (\<forall>x. unique_subscriptions x \<longrightarrow> unique_subscriptions (others2 x)) \<longrightarrow>
           unique_subscriptions (snd (subscribe_async others1 others2 d userId courseId p ds)))
     \<and> res_status (subscribe_catch (Error ''User already subscribed to this course'')) = 409"
proof -
  from assms(2) obtain x row where pre: "\<not> isUserSubscribed db userId courseId"
    and ins: "insert_subscription db userId courseId x defaults = (Inr row, db')"
    by (auto elim: subscribe_success_cases)
  from ins obtain paid where
    row: "row = \<lparr>s_id = fst defaults, s_user_id = userId, s_course_id = courseId,
            s_price_paid = paid, s_subscribed_at = snd defaults\<rparr>"
    and db': "db' = db\<lparr>subscriptions := subscriptions db @ [row]\<rparr>"
    by (auto elim: insert_subscription_cases)
  have none: "filter (\<lambda>s. s_user_id s = userId \<and> s_course_id s = courseId) (subscriptions db) = []"
    using pre by (simp add: isUserSubscribed_def select_subscriptions_def)
  have u: "unique_subscriptions db'"
    using assms(1) ins by (rule insert_subscription_unique)
  have one: "length (filter (\<lambda>s. s_user_id s = userId \<and> s_course_id s = courseId)
         (subscriptions db')) = 1"
    using none by (simp add: db' row)
  have rest: "filter (\<lambda>s. \<not> (s_user_id s = userId \<and> s_course_id s = courseId)) (subscriptions db') =
       filter (\<lambda>s. \<not> (s_user_id s = userId \<and> s_course_id s = courseId)) (subscriptions db)"
    by (simp add: db' row)
  have "isUserSubscribed db' userId courseId"
    using one by (simp add: isUserSubscribed_def select_subscriptions_def)
  then have again: "\<forall>promoCode' defaults'. subscribe db' userId courseId promoCode' defaults' =
           (Inl (Error ''User already subscribed to this course''), db')"
    by (simp add: subscribe_already)
  have found: "\<forall>d p ds.
           (\<exists>s \<in> set (subscriptions d). s_user_id s = userId \<and> s_course_id s = courseId) \<longrightarrow>
           subscribe d userId courseId p ds =
             (Inl (Error ''User already subscribed to this course''), d)"
    using subscribe_already by (simp only: isUserSubscribed_iff) blast
  have absent: "\<forall>d p ds.
           (\<forall>s \<in> set (subscriptions d). \<not> (s_user_id s = userId \<and> s_course_id s = courseId)) \<longrightarrow>
           fst (subscribe d userId courseId p ds) \<noteq>
             Inl (Error ''User already subscribed to this course'')"
    using subscribe_no_conflict by (simp only: isUserSubscribed_iff) blast
  have inter: "\<forall>others1 others2 d p ds.
           unique_subscriptions d
           \<and> (\<forall>x. unique_subscriptions x \<longrightarrow> unique_subscriptions (others1 x))
           \<and> (\<forall>x. unique_subscriptions x \<longrightarrow> unique_subscriptions (others2 x)) \<longrightarrow>
           unique_subscriptions (snd (subscribe_async others1 others2 d userId courseId p ds))"
    using subscribe_async_unique by blast
  have status: "res_status (subscribe_catch (Error ''User already subscribed to this course'')) = 409"
    by simp
  from u one rest again found absent inter status show ?thesis
    by (intro conjI)
qed

text \<open>
  The user is subscribed to the course at 99.99 and subscribes to the free course: this
  succeeds, a second call with a promo code meets the conflict, and the table keeps the
  invariant when that second call runs while the first one waits.
\<close>

theorem subscribe_at_most_once_witness:
  "subscribe
     (snd (subscribe subscribed_db user1 free_course None (''s1'', 1)))
     user1 free_course (Some ''BFSALE25'') (''s2'', 2) =
     (Inl (Error ''User already subscribed to this course''),
      snd (subscribe subscribed_db user1 free_course None (''s1'', 1)))
   \<and> length (filter (\<lambda>s. s_user_id s = user1 \<and> s_course_id s = free_course)
       (subscriptions (snd (subscribe subscribed_db user1 free_course None (''s1'', 1))))) = 1
   \<and> fst (subscribe subscribed_db user1 free_course None (''s1'', 1)) \<noteq>
       Inl (Error ''User already subscribed to this course'')
   \<and> unique_subscriptions
       (snd (subscribe_async id (\<lambda>db. snd (subscribe db user1 free_course None (''s2'', 2)))
          subscribed_db user1 free_course None (''s1'', 1)))"
proof -
  have h1: "unique_subscriptions subscribed_db"
    by code_simp
  have h2: "subscribe subscribed_db user1 free_course None (''s1'', 1) =
     (Inr \<lparr>sub_id = ''s1'', sub_userId = user1, sub_courseId = free_course,
            sub_pricePaid = 0, sub_subscribedAt = 1\<rparr>,
      snd (subscribe subscribed_db user1 free_course None (''s1'', 1)))"
    by code_simp
  note fact = subscribe_at_most_once [OF h1 h2]
  have again: "subscribe
     (snd (subscribe subscribed_db user1 free_course None (''s1'', 1)))
     user1 free_course (Some ''BFSALE25'') (''s2'', 2) =
     (Inl (Error ''User already subscribed to this course''),
      snd (subscribe subscribed_db user1 free_course None (''s1'', 1)))"
    using fact by (elim conjE) (erule allE, erule allE, assumption)
  have one: "length (filter (\<lambda>s. s_user_id s = user1 \<and> s_course_id s = free_course)
       (subscriptions (snd (subscribe subscribed_db user1 free_course None (''s1'', 1))))) = 1"
    using fact by (elim conjE)
  have other: "\<forall>s \<in> set (subscriptions subscribed_db).
      \<not> (s_user_id s = user1 \<and> s_course_id s = free_course)"
    by code_simp
  have absent: "\<forall>d p ds.
           (\<forall>s \<in> set (subscriptions d). \<not> (s_user_id s = user1 \<and> s_course_id s = free_course)) \<longrightarrow>
           fst (subscribe d user1 free_course p ds) \<noteq>
             Inl (Error ''User already subscribed to this course'')"
    using fact by (elim conjE)
  have first: "fst (subscribe subscribed_db user1 free_course None (''s1'', 1)) \<noteq>
       Inl (Error ''User already subscribed to this course'')"
    using absent other by (elim allE impE) assumption+
  have inter: "\<forall>others1 others2 d p ds.
           unique_subscriptions d
           \<and> (\<forall>x. unique_subscriptions x \<longrightarrow> unique_subscriptions (others1 x))
           \<and> (\<forall>x. unique_subscriptions x \<longrightarrow> unique_subscriptions (others2 x)) \<longrightarrow>
           unique_subscriptions (snd (subscribe_async others1 others2 d user1 free_course p ds))"
    using fact by (elim conjE)
  have keep: "\<forall>x. unique_subscriptions x \<longrightarrow>
      unique_subscriptions (snd (subscribe x user1 free_course None (''s2'', 2)))"
    unfolding subscribe_def by (intro allI impI subscribe_async_unique) simp_all
  have "unique_subscriptions
       (snd (subscribe_async id (\<lambda>db. snd (subscribe db user1 free_course None (''s2'', 2)))
          subscribed_db user1 free_course None (''s1'', 1)))"
    using inter [rule_format, of subscribed_db id
        "\<lambda>db. snd (subscribe db user1 free_course None (''s2'', 2))" None "(''s1'', 1)"]
      h1 keep
    by simp
  with again one first show ?thesis
    by (intro conjI)
qed

text \<open>
  C5 fails on the code. Two requests of one user for one course, the second handled while the
  first waits for its course query: the first passed the check for an existing subscription,
  its \<^verbatim>\<open>INSERT\<close> is rejected by \<^verbatim>\<open>UNIQUE(user_id, course_id)\<close>, and the error of the
  database reaches the \<^verbatim>\<open>catch\<close> block of the route, which knows four messages and not
  this one: the answer is 500, not 409. One subscription is persisted.
\<close>

theorem duplicate_key_is_answered_500:
  "post_subscribe_async id
     (\<lambda>db. snd (post_subscribe example_ext (''s2'', 2) (subscribe_request free_course None) db))
     example_ext (''s1'', 1) user1 (subscribe_request free_course None) example_db =
     (\<lparr>res_status = 500, res_body = ErrorBody ''Internal server error''\<rparr>,
      example_db\<lparr>subscriptions :=
         [\<lparr>s_id = ''s2'', s_user_id = user1, s_course_id = free_course,
           s_price_paid = 0, s_subscribed_at = 2\<rparr>]\<rparr>)
   \<and> fst (subscribe_async id
       (\<lambda>db. snd (post_subscribe example_ext (''s2'', 2) (subscribe_request free_course None) db))
       example_db user1 free_course None (''s1'', 1)) = Inl (Error unique_violation)
   \<and> subscribe_catch (Error unique_violation) =
       \<lparr>res_status = 500, res_body = ErrorBody ''Internal server error''\<rparr>"
  by code_simp

section \<open>The price that is paid\<close>

text \<open>
  C8 fails on the code. The seeded course at 99.99 with \<^verbatim>\<open>BFSALE25\<close>: half the price is
  49.995, which rounded half away from zero is 50.00. The number that 99.99 reads as lies
  below 99.99, so does its half below 49.995, and \<^verbatim>\<open>toFixed(2)\<close> gives 49.99, which is what
  is paid and persisted. The seeded course at 149.99 reads as a number above it and is charged
  75.00. Only a half that binary64 holds exactly, as that of 0.25, is a tie for
  \<^verbatim>\<open>toFixed\<close>, and goes away from zero.
\<close>

theorem half_cent_rounded_down:
  "parseFloat (Fixed2 9999) < 9999 / 100
   \<and> calculateDiscountedPrice (parseFloat (Fixed2 9999)) PROMO_DISCOUNT = parseFloat (Fixed2 4999)
   \<and> round_half_away (100 * (9999 / 100 * (1 / 2))) = 5000
   \<and> snd (subscribe example_db user1 react_course (Some ''BFSALE25'') (''s1'', 1)) =
       example_db\<lparr>subscriptions :=
         [\<lparr>s_id = ''s1'', s_user_id = user1, s_course_id = react_course,
           s_price_paid = 4999, s_subscribed_at = 1\<rparr>]\<rparr>
   \<and> calculateDiscountedPrice (parseFloat (Fixed2 14999)) PROMO_DISCOUNT = parseFloat (Fixed2 7500)
   \<and> calculateDiscountedPrice (parseFloat (Fixed2 25)) PROMO_DISCOUNT = parseFloat (Fixed2 13)"
  by code_simp

text \<open>
  C9, as the claim states it, fails: the full price would never be charged. Half of 0.01
  rounds to 0.01, and the course at one cent is charged one cent.
\<close>

theorem one_cent_counterexample:
  "map c_price (select_course example_db cent_course) = [1]
   \<and> subscribe example_db user1 cent_course (Some ''BFSALE25'') (''s1'', 1) =
     (Inr \<lparr>sub_id = ''s1'', sub_userId = user1, sub_courseId = cent_course,
            sub_pricePaid = parseFloat (Fixed2 1), sub_subscribedAt = 1\<rparr>,
      example_db\<lparr>subscriptions :=
         [\<lparr>s_id = ''s1'', s_user_id = user1, s_course_id = cent_course,
           s_price_paid = 1, s_subscribed_at = 1\<rparr>]\<rparr>)"
  by code_simp

text \<open>
  C9, amended. A successful \<open>subscribe\<close> on a course with a price of zero or more persists
  one row. Its price paid is zero for a free course; for a paid course the promo code was
  \<^verbatim>\<open>BFSALE25\<close> and the price paid is what \<open>calculateDiscountedPrice\<close> returns for a
  discount of 0.5, an amount of whole hundredths. The price paid is half the price when that
  is a whole number of hundredths, and otherwise one of the two amounts that lie half a
  hundredth from half the price; which of the two is the matter of C8 and is not stated here.
  The price paid lies between zero and the price, and below the price from a price of 0.02 on.
\<close>

theorem subscribe_price_paid:
  assumes "subscribe db userId courseId promoCode defaults = (Inr sub, db')"
    and "select_course db courseId = course # rest"
    and "0 \<le> c_price course" and "decimal_10_2 (c_price course)"
  shows "\<exists>paid.
      db' = db\<lparr>subscriptions := subscriptions db @
         [\<lparr>s_id = fst defaults, s_user_id = userId, s_course_id = courseId,
           s_price_paid = paid, s_subscribed_at = snd defaults\<rparr>]\<rparr>
    \<and> sub_pricePaid sub = parseFloat (Fixed2 paid)
    \<and> (if c_price course = 0 then paid = 0
        else promoCode = Some ''BFSALE25''
           \<and> calculateDiscountedPrice (parseFloat (Fixed2 (c_price course))) PROMO_DISCOUNT
               = parseFloat (Fixed2 paid))
    \<and> \<bar>2 * paid - c_price course\<bar> \<le> 1
    \<and> (even (c_price course) \<longrightarrow> 2 * paid = c_price course)
    \<and> 0 \<le> paid \<and> paid \<le> c_price course \<and> (2 \<le> c_price course \<longrightarrow> paid < c_price course)"
proof -
  from assms(1) obtain course' rest' x row where
        sel: "select_course db courseId = course' # rest'"
    and ins: "insert_subscription db userId courseId x defaults = (Inr row, db')"
    and sub: "sub = \<lparr>sub_id = s_id row, sub_userId = s_user_id row, sub_courseId = s_course_id row,
                sub_pricePaid = parseFloat (Fixed2 (s_price_paid row)),
                sub_subscribedAt = s_subscribed_at row\<rparr>"
    and x: "if parseFloat (Fixed2 (c_price course')) = 0 then x = 0
         else promoCode = Some ''BFSALE25'' \<and>
              x = calculateDiscountedPrice (parseFloat (Fixed2 (c_price course'))) PROMO_DISCOUNT"
    by (auto elim: subscribe_success_cases)
  have same: "course' = course" using sel assms(2) by simp
  from ins obtain paid where dec: "to_decimal_10_2 x = Inr paid"
    and row: "row = \<lparr>s_id = fst defaults, s_user_id = userId, s_course_id = courseId,
            s_price_paid = paid, s_subscribed_at = snd defaults\<rparr>"
    and db': "db' = db\<lparr>subscriptions := subscriptions db @ [row]\<rparr>"
    by (auto elim: insert_subscription_cases)
  show ?thesis
  proof (cases "c_price course = 0")
    case True
    then have "x = 0" using x same by (simp add: binary64_def)
    then have "paid = 0" using dec to_decimal_zero by simp
    then show ?thesis using True db' row sub by simp
  next
    case False
    then have pos: "0 < c_price course" using assms(3) by simp
    then have nz: "parseFloat (Fixed2 (c_price course)) \<noteq> 0"
      by (simp only: parseFloat_eq_0_iff)
    define p where
      "p = round_half_away (100 * js_mul (parseFloat (Fixed2 (c_price course))) (1 / 2))"
    have promo: "promoCode = Some ''BFSALE25''"
      and xp: "x = calculateDiscountedPrice (parseFloat (Fixed2 (c_price course))) PROMO_DISCOUNT"
      using x nz same by simp_all
    have small: "\<bar>js_mul (parseFloat (Fixed2 (c_price course))) (1 / 2)\<bar> < 10 ^ 21"
      and near: "\<bar>2 * p - c_price course\<bar> \<le> 1"
      using discounted_hundredths [OF pos assms(4)] unfolding js_sub_discount p_def
      by simp_all
    have calc: "x = parseFloat (Fixed2 p)"
      using small
      unfolding xp calculateDiscountedPrice_def Let_def js_sub_discount toFixed2_def p_def
      by (simp del: parseFloat.simps)
    moreover have "decimal_10_2 p"
      using near pos assms(4) by (simp add: decimal_10_2_def)
    ultimately have paid: "paid = p"
      using dec to_decimal_parseFloat [of p] by simp
    have exact: "even (c_price course) \<longrightarrow> 2 * p = c_price course"
      using near by presburger
    have bounds: "0 \<le> p" "p \<le> c_price course" "2 \<le> c_price course \<longrightarrow> p < c_price course"
      using near pos by linarith+
    have "calculateDiscountedPrice (parseFloat (Fixed2 (c_price course))) PROMO_DISCOUNT
               = parseFloat (Fixed2 p)"
      using calc xp by simp
    then show ?thesis
      using False promo near exact bounds db' row sub paid
      by (intro exI [of _ p]) (simp del: parseFloat.simps)
  qed
qed

text \<open>The course at 99.99: what is paid is 49.99 or 50.00, and less than the price.\<close>

theorem subscribe_price_paid_witness:
  "\<exists>paid.
      snd (subscribe example_db user1 react_course (Some ''BFSALE25'') (''s1'', 1)) =
        example_db\<lparr>subscriptions := subscriptions example_db @
         [\<lparr>s_id = ''s1'', s_user_id = user1, s_course_id = react_course,
           s_price_paid = paid, s_subscribed_at = 1\<rparr>]\<rparr>
    \<and> calculateDiscountedPrice (parseFloat (Fixed2 9999)) PROMO_DISCOUNT = parseFloat (Fixed2 paid)
    \<and> \<bar>2 * paid - 9999\<bar> \<le> 1 \<and> 0 \<le> paid \<and> paid < 9999"
proof -
  have h1: "subscribe example_db user1 react_course (Some ''BFSALE25'') (''s1'', 1) =
     (Inr \<lparr>sub_id = ''s1'', sub_userId = user1, sub_courseId = react_course,
            sub_pricePaid = parseFloat (Fixed2 4999), sub_subscribedAt = 1\<rparr>,
      snd (subscribe example_db user1 react_course (Some ''BFSALE25'') (''s1'', 1)))"
    by code_simp
  have h2: "select_course example_db react_course =
      example_course react_course ''Advanced React Patterns'' 9999 # []"
    by code_simp
  have h3: "0 \<le> c_price (example_course react_course ''Advanced React Patterns'' 9999)"
    by (simp add: example_course_def)
  have h4: "decimal_10_2 (c_price (example_course react_course ''Advanced React Patterns'' 9999))"
    by (simp add: example_course_def decimal_10_2_def)
  have c: "c_price (example_course react_course ''Advanced React Patterns'' 9999) = 9999"
    by (simp add: example_course_def)
  show ?thesis
    using subscribe_price_paid [OF h1 h2 h3 h4] unfolding c
    by (auto simp del: parseFloat.simps)
qed

section \<open>Authentication\<close>

text \<open>
  C6. A login with an email that no user has and a login with the email of a user and a
  password that does not match fail alike: \<open>login\<close> throws the same error, with the message
  \<^verbatim>\<open>Invalid credentials\<close>, and the route answers both requests with the same response,
  status 401 and that message. (The requests are ones that pass the schema of the route.)
\<close>

theorem login_failures_identical:
  assumes "loginSchema ext (req_body req) = Inr (email, password)"
    and "select_user_by_email db email = []"
    and "loginSchema ext (req_body req') = Inr (email', password')"
    and "select_user_by_email db' email' = user # rest"
    and "\<not> bcrypt_compare ext password' (u_password user)"
  shows "login ext db email password = Inl (Error ''Invalid credentials'')
     \<and> login ext db' email' password' = Inl (Error ''Invalid credentials'')
     \<and> post_login ext db req = \<lparr>res_status = 401, res_body = ErrorBody ''Invalid credentials''\<rparr>
     \<and> post_login ext db' req' = post_login ext db req"
  using assms by (simp add: login_def post_login_def Let_def)

text \<open>An unknown email, and the email of the example user with a wrong password.\<close>

theorem login_failures_identical_witness:
  "post_login example_ext example_db (login_request ''nobody@example.com'' ''password123'') =
     \<lparr>res_status = 401, res_body = ErrorBody ''Invalid credentials''\<rparr>
   \<and> post_login example_ext example_db (login_request ''test1@example.com'' ''password124'') =
     post_login example_ext example_db (login_request ''nobody@example.com'' ''password123'')"
proof -
  have h1: "loginSchema example_ext (req_body (login_request ''nobody@example.com'' ''password123''))
      = Inr (''nobody@example.com'', ''password123'')"
    by code_simp
  have h2: "select_user_by_email example_db ''nobody@example.com'' = []"
    by code_simp
  have h3: "loginSchema example_ext (req_body (login_request ''test1@example.com'' ''password124''))
      = Inr (''test1@example.com'', ''password124'')"
    by code_simp
  have h4: "select_user_by_email example_db ''test1@example.com'' = example_user # []"
    by code_simp
  have h5: "\<not> bcrypt_compare example_ext ''password124'' (u_password example_user)"
    by code_simp
  show ?thesis
    using login_failures_identical [OF h1 h2 h3 h4 h5] by simp
qed

text \<open>
  C7. \<open>verifyToken\<close> returns for every token and never throws, and whenever the library
  rejects the token (wrong signature, malformed, expired) it returns \<^verbatim>\<open>null\<close>. A request to
  a protected route without an \<^verbatim>\<open>Authorization\<close> header, with an empty one, with one that
  does not start with \<^verbatim>\<open>Bearer \<close>, or with a token that the library rejects, is answered
  with status 401 by the middleware: the handler of the route, whichever it is, is not run
  and the state is left as it was.
\<close>

theorem verifyToken_fails_closed:
  assumes "req_authorization req = None
      \<or> req_authorization req = Some []
      \<or> (\<exists>header. req_authorization req = Some header \<and> take 7 header \<noteq> ''Bearer '')
      \<or> (\<exists>token error. req_authorization req = Some (''Bearer '' @ token)
            \<and> jwt_verify ext token (JWT_SECRET ext) = Inl error)"
  shows "(\<forall>token. \<exists>result. verifyToken ext token = Inr result)
     \<and> (\<forall>token error. jwt_verify ext token (JWT_SECRET ext) = Inl error \<longrightarrow>
           verifyToken ext token = Inr None)
     \<and> (\<exists>res. res_status res = 401 \<and> authMiddleware ext req = Respond res
           \<and> (\<forall>handler s. protected ext handler req s = (res, s)))"
proof -
  have total: "\<forall>token. \<exists>result. verifyToken ext token = Inr result"
    by (simp add: verifyToken_def split: sum.splits)
  have closed: "\<forall>token error. jwt_verify ext token (JWT_SECRET ext) = Inl error \<longrightarrow>
           verifyToken ext token = Inr None"
    by (simp add: verifyToken_def)
  have "\<exists>res. res_status res = 401 \<and> authMiddleware ext req = Respond res"
    using assms closed
    by (auto simp: authMiddleware_def Let_def split: option.splits sum.splits)
  then obtain res where "res_status res = 401" and "authMiddleware ext req = Respond res"
    by blast
  then have "res_status res = 401 \<and> authMiddleware ext req = Respond res
           \<and> (\<forall>handler s. protected ext handler req s = (res, s))"
    by (simp add: protected_def)
  then show ?thesis using total closed by blast
qed

text \<open>A request with a token that does not verify, sent to \<^verbatim>\<open>POST /subscribe\<close>.\<close>

theorem verifyToken_fails_closed_witness:
  "verifyToken example_ext ''expired.token'' = Inr None
   \<and> (\<exists>res. res_status res = 401
         \<and> post_subscribe example_ext (''s1'', 1) stale_request example_db = (res, example_db))"
proof -
  have h: "jwt_verify example_ext ''expired.token'' (JWT_SECRET example_ext) =
      Inl (Error ''invalid signature'')"
    by code_simp
  have r: "req_authorization stale_request = Some (''Bearer '' @ ''expired.token'')"
    by (simp add: stale_request_def)
  have "req_authorization stale_request = None
      \<or> req_authorization stale_request = Some []
      \<or> (\<exists>header. req_authorization stale_request = Some header \<and> take 7 header \<noteq> ''Bearer '')
      \<or> (\<exists>token error. req_authorization stale_request = Some (''Bearer '' @ token)
            \<and> jwt_verify example_ext token (JWT_SECRET example_ext) = Inl error)"
    using h r by blast
  note fact = verifyToken_fails_closed [OF this]
  have closed: "\<forall>token error. jwt_verify example_ext token (JWT_SECRET example_ext) = Inl error \<longrightarrow>
           verifyToken example_ext token = Inr None"
    by (rule conjunct1 [OF conjunct2 [OF fact]])
  have "\<exists>res. res_status res = 401 \<and> authMiddleware example_ext stale_request = Respond res
           \<and> (\<forall>handler (s::database). protected example_ext handler stale_request s = (res, s))"
    by (rule conjunct2 [OF conjunct2 [OF fact]])
  then obtain res where res: "res_status res = 401"
    and run: "\<forall>handler (s::database). protected example_ext handler stale_request s = (res, s)"
    by (elim exE conjE)
  have "post_subscribe example_ext (''s1'', 1) stale_request example_db = (res, example_db)"
    unfolding post_subscribe_def using run by simp
  moreover have "verifyToken example_ext ''expired.token'' = Inr None"
    using closed h by simp
  ultimately show ?thesis
    using res by auto
qed

text \<open>
  C10. A request to \<^verbatim>\<open>POST /auth/login\<close> whose password is a string of fewer than eight
  characters is answered with status 400 and the validation message of the password. The
  answer is not the 401 of a failed login, and it is the same for every database and every
  outcome of the password comparison: the credentials are not looked at.
\<close>

theorem short_password_rejected:
  assumes "req_body req = JObject entries"
    and "field entries ''password'' = Some (JString password)"
    and "length password < 8"
  shows "res_status (post_login ext db req) = 400
     \<and> (\<exists>details. res_body (post_login ext db req) = ValidationBody details
           \<and> (''password'', ''Password must be at least 8 characters long'') \<in> set details)
     \<and> post_login ext db req \<noteq> \<lparr>res_status = 401, res_body = ErrorBody ''Invalid credentials''\<rparr>
     \<and> (\<forall>db' compare.
           post_login (ext\<lparr>bcrypt_compare := compare\<rparr>) db' req = post_login ext db req)"
  using assms
  by (auto simp: post_login_def loginSchema_def zod_string_def issues_of_def validation_failed_def
      Let_def split: sum.splits option.splits json.splits list.splits)

text \<open>The example user's email with a password of five characters.\<close>

theorem short_password_rejected_witness:
  "post_login example_ext example_db (login_request ''test1@example.com'' ''admin'') =
     \<lparr>res_status = 400, res_body = ValidationBody
        [(''password'', ''Password must be at least 8 characters long'')]\<rparr>
   \<and> res_status (post_login example_ext example_db (login_request ''test1@example.com'' ''admin''))
       = 400"
proof -
  have h1: "req_body (login_request ''test1@example.com'' ''admin'') =
      JObject [(''email'', JString ''test1@example.com''), (''password'', JString ''admin'')]"
    by (simp add: login_request_def)
  have h2: "field [(''email'', JString ''test1@example.com''), (''password'', JString ''admin'')]
      ''password'' = Some (JString ''admin'')"
    by code_simp
  have h3: "length ''admin'' < 8"
    by simp
  have e: "post_login example_ext example_db (login_request ''test1@example.com'' ''admin'') =
     \<lparr>res_status = 400, res_body = ValidationBody
        [(''password'', ''Password must be at least 8 characters long'')]\<rparr>"
    by code_simp
  show ?thesis
    using short_password_rejected [OF h1 h2 h3, of example_ext example_db] e by simp
qed

end
